theory Spec2Isabelle
  imports Complex_Main "HOL-Library.Monad_Syntax" "HOL-Library.Word"
begin

section \<open>Stage registry\<close>

text \<open>
  The enumeration \<open>STAGE\<close> generated by \<open>MAKE_ENUM_AND_STRINGS(E_TIME_PROF_STAGES, STAGE,
  stageNames)\<close>. The enumerators \<open>P_STAGES\<close> and \<open>P_VOID\<close> have the same value
  (\<open>P_VOID = P_STAGES\<close>), so \<open>P_VOID\<close> is another name of the constructor \<open>P_STAGES\<close>.
\<close>

datatype STAGE =
    P_NALU_SLICE_PIC_HL
  | P_CONTROL_PARSE_DERIVE_LL
  | P_PARSERESIDUALS
  | P_INTRAPRED
  | P_MOTCOMP
  | P_ITRANS_REC
  | P_DBFILTER
  | P_SAO
  | P_RESHAPER
  | P_ALF
  | P_OTHER
  | P_STAGES

abbreviation P_VOID :: STAGE where
  "P_VOID \<equiv> P_STAGES"

text \<open>The integer value of an enumerator, used wherever a stage indexes a vector.\<close>

fun stage_index :: "STAGE \<Rightarrow> nat" where
  "stage_index P_NALU_SLICE_PIC_HL = 0"
| "stage_index P_CONTROL_PARSE_DERIVE_LL = 1"
| "stage_index P_PARSERESIDUALS = 2"
| "stage_index P_INTRAPRED = 3"
| "stage_index P_MOTCOMP = 4"
| "stage_index P_ITRANS_REC = 5"
| "stage_index P_DBFILTER = 6"
| "stage_index P_SAO = 7"
| "stage_index P_RESHAPER = 8"
| "stage_index P_ALF = 9"
| "stage_index P_OTHER = 10"
| "stage_index P_STAGES = 11"

text \<open>The enumerators in the order of the registry (\<open>P_VOID\<close> is the last one).\<close>

definition all_stages :: "STAGE list" where
  "all_stages =
     [P_NALU_SLICE_PIC_HL, P_CONTROL_PARSE_DERIVE_LL, P_PARSERESIDUALS, P_INTRAPRED,
      P_MOTCOMP, P_ITRANS_REC, P_DBFILTER, P_SAO, P_RESHAPER, P_ALF, P_OTHER, P_STAGES]"

text \<open>
  The name table: \<open>MAKE_STRINGS\<close> turns each of the thirteen macro arguments into a string,
  the last one being the text \<open>P_VOID = P_STAGES\<close>.
\<close>

definition stageNames :: "string list" where
  "stageNames =
     [''P_NALU_SLICE_PIC_HL'', ''P_CONTROL_PARSE_DERIVE_LL'', ''P_PARSERESIDUALS'',
      ''P_INTRAPRED'', ''P_MOTCOMP'', ''P_ITRANS_REC'', ''P_DBFILTER'', ''P_SAO'',
      ''P_RESHAPER'', ''P_ALF'', ''P_OTHER'', ''P_STAGES'', ''P_VOID = P_STAGES'']"

section \<open>Time\<close>

text \<open>
  \<open>clock::now()\<close> is the only input of the profilers besides their arguments: every operation
  that reads the clock takes the value read as its argument \<open>now\<close>. A
  \<open>steady_clock::time_point\<close> is a count of clock ticks, of one nanosecond each. The scalar
  profiler accumulates \<open>std::chrono::duration<double, std::milli>\<close>: adding a difference of
  time points converts the tick count to milliseconds.

  A \<open>double\<close> is modelled as the real number it denotes. Which slot receives which
  interval does not depend on how the sums are rounded, and the operations \<open>to_ms\<close>,
  \<open>add_at\<close> and \<open>transition\<close> below leave the rounding out. Where sums are compared for
  equality the rounding decides, and the operations are given with it: \<open>to_ms_double\<close>,
  \<open>add_at_double\<close>, \<open>transition_double\<close>, \<open>merge_loop\<close> and \<open>counted_double\<close>. The division
  of the report, the one place where a computation leaves the finite numbers, has the type
  \<open>dbl\<close> below.
\<close>

type_synonym time_point = int

type_synonym duration = real

definition to_ms :: "int \<Rightarrow> duration" where
  "to_ms ticks = real_of_int ticks / 1000000"

text \<open>
  \<open>v[i] += d\<close> on a \<open>std::vector\<close>: an index outside the vector has no defined behaviour,
  which is the result \<open>None\<close>.
\<close>

definition add_at :: "nat \<Rightarrow> real \<Rightarrow> real list \<Rightarrow> real list option" where
  "add_at i d v = (if i < length v then Some (v[i := v ! i + d]) else None)"

section \<open>Double arithmetic\<close>

text \<open>
  IEEE 754 binary64 with the default rounding: the result of an operation is the exact
  result rounded to 53 significant bits, to the nearest such number and to the one with an
  even last bit when two are equally near. Overflow, infinities and NaN are left out: the
  numbers here come from tick counts below \<open>2^63\<close> and their sums.

  \<open>bit_length n\<close> is the number of binary digits of \<open>n\<close>.
\<close>

function bit_length :: "int \<Rightarrow> nat" where
  "bit_length n = (if n \<le> 0 then 0 else Suc (bit_length (n div 2)))"
  by pat_completeness auto
termination
  by (relation "measure nat") auto

declare bit_length.simps [simp del]

text \<open>The nearest integer, the even one of two that are equally near.\<close>

definition round_even :: "real \<Rightarrow> int" where
  "round_even y =
     (let f = \<lfloor>y\<rfloor> in
      if y - of_int f < 1 / 2 then f
      else if 1 / 2 < y - of_int f then f + 1
      else if even f then f else f + 1)"

text \<open>
  Rounding to 53 significant bits: the magnitude is scaled by a power of two into the
  range from \<open>2^52\<close> to \<open>2^53\<close>, rounded to an integer there and scaled back.
\<close>

definition round_double :: "real \<Rightarrow> real" where
  "round_double x =
     (if x = 0 then 0
      else if 2 ^ 52 \<le> \<bar>x\<bar> then
        (let k = bit_length \<lfloor>\<bar>x\<bar>\<rfloor> - 53
         in sgn x * (of_int (round_even (\<bar>x\<bar> / 2 ^ k)) * 2 ^ k))
      else
        (let j = bit_length (\<lceil>2 ^ 52 / \<bar>x\<bar>\<rceil> - 1)
         in sgn x * (of_int (round_even (\<bar>x\<bar> * 2 ^ j)) / 2 ^ j)))"

text \<open>The sum of two \<open>double\<close> values.\<close>

definition double_add :: "real \<Rightarrow> real \<Rightarrow> real" where
  "double_add a b = round_double (a + b)"

text \<open>
  The conversion of a tick count to \<open>duration<double, std::milli>\<close>:
  \<open>static_cast<double>(count) / static_cast<double>(1000000)\<close>.
\<close>

definition to_ms_double :: "int \<Rightarrow> duration" where
  "to_ms_double ticks = round_double (round_double (of_int ticks) / 1000000)"

text \<open>\<open>v[i] += d\<close> on a vector of \<open>double\<close>.\<close>

definition add_at_double :: "nat \<Rightarrow> real \<Rightarrow> real list \<Rightarrow> real list option" where
  "add_at_double i d v = (if i < length v then Some (v[i := double_add (v ! i) d]) else None)"

section \<open>The scalar profiler\<close>

text \<open>
  The members \<open>m_iLevel\<close>, \<open>m_iExtData\<close>, \<open>m_numBlkHor\<close>, \<open>m_numBlkVer\<close>, \<open>m_curWId\<close> and
  \<open>m_curHId\<close> are never read or written and are left out.
\<close>

record TimeProfiler =
  m_previous :: time_point
  m_eStage :: STAGE
  start_time :: time_point
  durations :: "duration list"

definition m_numStages :: nat where
  "m_numStages = stage_index P_STAGES + 1"

definition init :: "TimeProfiler \<Rightarrow> TimeProfiler" where
  "init p = p\<lparr>durations := replicate m_numStages 0\<rparr>"

text \<open>The constructor; \<open>now\<close> is the clock value the member initialiser reads.\<close>

definition TimeProfiler_new :: "time_point \<Rightarrow> TimeProfiler" where
  "TimeProfiler_new now =
     init \<lparr>m_previous = now, m_eStage = P_VOID, start_time = now, durations = []\<rparr>"

text \<open>\<open>TimeProfiler::operator()( STAGE s )\<close>, the transition into stage \<open>s\<close>.\<close>

definition transition :: "time_point \<Rightarrow> STAGE \<Rightarrow> TimeProfiler \<Rightarrow> TimeProfiler option" where
  "transition now s p =
     (case add_at (stage_index (m_eStage p)) (to_ms (now - m_previous p)) (durations p) of
        None \<Rightarrow> None
      | Some ds \<Rightarrow> Some (p\<lparr>durations := ds, m_previous := now, m_eStage := s\<rparr>))"

text \<open>\<open>TimeProfiler::operator()( STAGE s )\<close> with the arithmetic of \<open>double\<close>.\<close>

definition transition_double ::
  "time_point \<Rightarrow> STAGE \<Rightarrow> TimeProfiler \<Rightarrow> TimeProfiler option" where
  "transition_double now s p =
     (case add_at_double (stage_index (m_eStage p)) (to_ms_double (now - m_previous p))
             (durations p) of
        None \<Rightarrow> None
      | Some ds \<Rightarrow> Some (p\<lparr>durations := ds, m_previous := now, m_eStage := s\<rparr>))"

text \<open>
  \<open>TimeProfiler::operator+=\<close>: the loop advances both iterators and stops when either vector
  ends; the elements of \<open>durations\<close> past the end of the other vector keep their value.
  \<open>*i1 += *i2\<close> adds two \<open>double\<close> values.
\<close>

fun merge_loop :: "duration list \<Rightarrow> duration list \<Rightarrow> duration list" where
  "merge_loop (a # as) (b # bs) = double_add a b # merge_loop as bs"
| "merge_loop as [] = as"
| "merge_loop [] bs = []"

definition merge :: "TimeProfiler \<Rightarrow> TimeProfiler \<Rightarrow> TimeProfiler" where
  "merge p other = p\<lparr>durations := merge_loop (durations p) (durations other)\<rparr>"

definition start :: "time_point \<Rightarrow> STAGE \<Rightarrow> TimeProfiler \<Rightarrow> TimeProfiler" where
  "start now s p = p\<lparr>m_previous := now, m_eStage := s\<rparr>"

definition stop :: "time_point \<Rightarrow> STAGE \<Rightarrow> TimeProfiler \<Rightarrow> TimeProfiler option" where
  "stop now s p =
     (case add_at (stage_index (m_eStage p)) (to_ms (now - m_previous p)) (durations p) of
        None \<Rightarrow> None
      | Some ds \<Rightarrow> Some (p\<lparr>durations := ds\<rparr>))"

definition curStage :: "TimeProfiler \<Rightarrow> STAGE" where
  "curStage p = m_eStage p"

text \<open>The state every operation keeps: the vector has one slot per enumerator value.\<close>

definition well_sized :: "TimeProfiler \<Rightarrow> bool" where
  "well_sized p = (length (durations p) = m_numStages)"

text \<open>The accumulated duration of a stage.\<close>

definition duration_of :: "TimeProfiler \<Rightarrow> STAGE \<Rightarrow> duration" where
  "duration_of p s = durations p ! stage_index s"

section \<open>The scalar scope guard\<close>

text \<open>
  \<open>StageTimeProfiler\<close> holds the stage it found and a pointer to the profiler. The profiler
  is passed through explicitly: the constructor returns the guard and the profiler after
  the call of \<open>operator()\<close>, the destructor returns the profiler.
\<close>

record StageTimeProfiler =
  m_ePrevStage :: STAGE

definition StageTimeProfiler_new ::
  "time_point \<Rightarrow> STAGE \<Rightarrow> TimeProfiler \<Rightarrow> (StageTimeProfiler \<times> TimeProfiler) option" where
  "StageTimeProfiler_new now s p =
     (case transition now s p of
        None \<Rightarrow> None
      | Some p' \<Rightarrow> Some (\<lparr>m_ePrevStage = curStage p\<rparr>, p'))"

definition StageTimeProfiler_delete ::
  "time_point \<Rightarrow> StageTimeProfiler \<Rightarrow> TimeProfiler \<Rightarrow> TimeProfiler option" where
  "StageTimeProfiler_delete now g p = transition now (m_ePrevStage g) p"

section \<open>The report\<close>

text \<open>
  The result of a \<open>double\<close> division. The quotient of two finite numbers is finite unless
  the divisor is zero; HOL's \<open>x / 0 = 0\<close> is not what the machine computes, so the
  other results are values of their own.
\<close>

datatype dbl = Finite real | PlusInf | MinusInf | NotANumber

definition dbl_div :: "real \<Rightarrow> real \<Rightarrow> dbl" where
  "dbl_div v c =
     (if c \<noteq> 0 then Finite (v / c)
      else if 0 < v then PlusInf
      else if v < 0 then MinusInf
      else NotANumber)"

fun dbl_times :: "dbl \<Rightarrow> real \<Rightarrow> dbl" where
  "dbl_times (Finite r) c = Finite (r * c)"
| "dbl_times PlusInf c = (if 0 < c then PlusInf else if c < 0 then MinusInf else NotANumber)"
| "dbl_times MinusInf c = (if 0 < c then MinusInf else if c < 0 then PlusInf else NotANumber)"
| "dbl_times NotANumber c = NotANumber"

text \<open>
  One line of the table: the name, the time and the percentage written to the stream, as
  values (the widths, the fixed notation and the precision of one digit are presentation).
\<close>

record report_row =
  row_name :: string
  row_time :: real
  row_percent :: dbl

record report =
  header :: "string list"
  stage_rows :: "report_row list"
  total_row :: report_row

definition scale :: real where
  "scale = 1"

text \<open>
  \<open>std::accumulate(prof.durations.begin(), prof.durations.end()-1, duration{})\<close>: the sum,
  from the left, of all elements but the last one. There is no \<open>end()-1\<close> of an empty vector.
\<close>

definition counted :: "duration list \<Rightarrow> duration option" where
  "counted ds = (if ds = [] then None else Some (foldl (+) 0 (butlast ds)))"


text \<open>
  The loop \<open>for (size_t i=0; i < P_STAGES; ++i)\<close>, over the indices still to visit. A stage
  whose duration is zero writes nothing.
\<close>

fun report_rows :: "duration list \<Rightarrow> duration \<Rightarrow> nat list \<Rightarrow> report_row list option" where
  "report_rows ds c [] = Some []"
| "report_rows ds c (i # is) =
     (if i < length ds \<and> i < length stageNames then
        (let v = ds ! i in
         case report_rows ds c is of
           None \<Rightarrow> None
         | Some rows \<Rightarrow>
             if v \<noteq> 0 then
               Some (\<lparr>row_name = stageNames ! i, row_time = v / scale,
                       row_percent = dbl_times (dbl_div v c) 100\<rparr> # rows)
             else Some rows)
      else None)"

text \<open>\<open>operator<<( std::ostream& os, const TimeProfiler& prof )\<close>.\<close>

definition print_profiler :: "TimeProfiler \<Rightarrow> report option" where
  "print_profiler prof =
     (case counted (durations prof) of
        None \<Rightarrow> None
      | Some c \<Rightarrow>
          (case report_rows (durations prof) c [0 ..< stage_index P_STAGES] of
             None \<Rightarrow> None
           | Some rows \<Rightarrow>
               Some \<lparr>header = [''stages'', ''time(ms)'', ''%''],
                     stage_rows = rows,
                     total_row = \<lparr>row_name = ''TOTAL'', row_time = c / scale,
                                  row_percent = Finite 100\<rparr>\<rparr>))"

text \<open>\<open>TimeProfiler::output\<close>, which writes the profiler to the stream.\<close>

definition output_profiler :: "TimeProfiler \<Rightarrow> report option" where
  "output_profiler p = print_profiler p"

text \<open>
  The words of the specification about the report: the tracked stages are the stages of the
  registry except the sentinel "none", the tracked total is the sum of their durations, and
  the percentage of a duration is its share of the tracked total times one hundred.
\<close>

definition tracked_stages :: "STAGE list" where
  "tracked_stages = filter (\<lambda>s. s \<noteq> P_VOID) all_stages"

definition trackedTotal :: "TimeProfiler \<Rightarrow> duration" where
  "trackedTotal p = sum_list (map (duration_of p) tracked_stages)"

definition percentage :: "duration \<Rightarrow> duration \<Rightarrow> dbl" where
  "percentage d tot = dbl_times (dbl_div d tot) 100"

definition spec_row :: "TimeProfiler \<Rightarrow> STAGE \<Rightarrow> report_row" where
  "spec_row p s =
     \<lparr>row_name = stageNames ! stage_index s, row_time = duration_of p s,
      row_percent = percentage (duration_of p s) (trackedTotal p)\<rparr>"

section \<open>The spatial profiler\<close>

text \<open>
  Modelled from the spec: \<open>StatCounter2DSet<double>\<close> of \<open>StatCounter.h\<close>, which is not among
  the sources. The specification asks of it a grid per stage of given extents
  \<open>(numX, numY)\<close> and the indexed increment \<open>grid[stage][y][x] += value\<close>; its
  representation is left open, so a set of counters is its extents and the value of every
  cell, and an increment outside the extents has no result.
\<close>

record StatCounter2DSet =
  cnt_types :: nat
  cnt_xdim :: nat
  cnt_ydim :: nat
  cnt_cell :: "nat \<Rightarrow> nat \<Rightarrow> nat \<Rightarrow> real"

text \<open>
  Modelled from the spec: \<open>StatCounter2DSet::init\<close>, which allocates one grid of extents
  \<open>(numX, numY)\<close> for each of the names it is given, every cell at zero.
\<close>

definition StatCounter2DSet_init :: "string list \<Rightarrow> nat \<Rightarrow> nat \<Rightarrow> StatCounter2DSet" where
  "StatCounter2DSet_init names xdim ydim =
     \<lparr>cnt_types = length names, cnt_xdim = xdim, cnt_ydim = ydim, cnt_cell = (\<lambda>t y x. 0)\<rparr>"

text \<open>
  Modelled from the spec: the indexed increment \<open>counters[type][y][x] += d\<close> of
  \<open>StatCounter2DSet\<close>.
\<close>

definition cnt_add :: "nat \<Rightarrow> nat \<Rightarrow> nat \<Rightarrow> real \<Rightarrow> StatCounter2DSet \<Rightarrow> StatCounter2DSet option" where
  "cnt_add t y x d c =
     (if t < cnt_types c \<and> y < cnt_ydim c \<and> x < cnt_xdim c then
        Some (c\<lparr>cnt_cell := (\<lambda>t' y' x'.
                if t' = t \<and> y' = y \<and> x' = x then cnt_cell c t y x + d else cnt_cell c t' y' x')\<rparr>)
      else None)"

text \<open>
  \<open>TimeProfiler2D\<close>. The coordinates are \<open>unsigned\<close>, words of 32 bits. The amount added to
  a cell is \<open>( now - m_previous ).count()\<close>, the number of clock ticks (nanoseconds), not
  milliseconds.
\<close>

record TimeProfiler2D =
  m_previous2D :: time_point
  m_startTime :: time_point
  m_stage :: STAGE
  m_numX :: "32 word"
  m_numY :: "32 word"
  m_numZ :: "32 word"
  m_curX :: "32 word"
  m_curY :: "32 word"
  m_curZ :: "32 word"
  m_counters :: "StatCounter2DSet list"

definition TimeProfiler2D_new ::
  "time_point \<Rightarrow> 32 word \<Rightarrow> 32 word \<Rightarrow> 32 word \<Rightarrow> TimeProfiler2D" where
  "TimeProfiler2D_new now numX numY numZ =
     \<lparr>m_previous2D = now, m_startTime = now, m_stage = P_VOID,
      m_numX = numX, m_numY = numY, m_numZ = numZ, m_curX = 0, m_curY = 0, m_curZ = 0,
      m_counters = replicate (unat numZ) (StatCounter2DSet_init stageNames (unat numX) (unat numY))\<rparr>"

definition count ::
  "time_point \<Rightarrow> STAGE \<Rightarrow> 32 word \<Rightarrow> 32 word \<Rightarrow> 32 word \<Rightarrow> TimeProfiler2D \<Rightarrow> TimeProfiler2D option" where
  "count now s x y z p =
     (if unat (m_curZ p) < length (m_counters p) then
        (case cnt_add (stage_index (m_stage p)) (unat (m_curY p)) (unat (m_curX p))
                (real_of_int (now - m_previous2D p)) (m_counters p ! unat (m_curZ p)) of
           None \<Rightarrow> None
         | Some c \<Rightarrow>
             Some (p\<lparr>m_counters := (m_counters p)[unat (m_curZ p) := c],
                     m_previous2D := now, m_stage := s, m_curX := x, m_curY := y, m_curZ := z\<rparr>))
      else None)"

definition start2D :: "time_point \<Rightarrow> STAGE \<Rightarrow> TimeProfiler2D \<Rightarrow> TimeProfiler2D" where
  "start2D now s p = p\<lparr>m_previous2D := now, m_stage := s\<rparr>"

definition stop2D :: "time_point \<Rightarrow> STAGE \<Rightarrow> TimeProfiler2D \<Rightarrow> TimeProfiler2D option" where
  "stop2D now s p = count now (m_stage p) (m_curX p) (m_curY p) (m_curZ p) p"

text \<open>The value of a cell of the grids; zero where there is no such layer.\<close>

definition cell :: "TimeProfiler2D \<Rightarrow> STAGE \<Rightarrow> 32 word \<Rightarrow> 32 word \<Rightarrow> 32 word \<Rightarrow> real" where
  "cell p s x y z =
     (if unat z < length (m_counters p)
      then cnt_cell (m_counters p ! unat z) (stage_index s) (unat y) (unat x) else 0)"

text \<open>The current key addresses a cell of the grids.\<close>

definition in_grid :: "TimeProfiler2D \<Rightarrow> bool" where
  "in_grid p =
     (unat (m_curZ p) < length (m_counters p) \<and>
      stage_index (m_stage p) < cnt_types (m_counters p ! unat (m_curZ p)) \<and>
      unat (m_curY p) < cnt_ydim (m_counters p ! unat (m_curZ p)) \<and>
      unat (m_curX p) < cnt_xdim (m_counters p ! unat (m_curZ p)))"

text \<open>
  \<open>StageTimeProfiler2D\<close> keeps the coordinates it found in members of type \<open>int\<close> and passes
  them back to \<open>count\<close>, which takes \<open>unsigned\<close>.
\<close>

record StageTimeProfiler2D =
  m_prevStage :: STAGE
  m_prevX :: int
  m_prevY :: int
  m_prevZ :: int

definition StageTimeProfiler2D_new ::
  "time_point \<Rightarrow> STAGE \<Rightarrow> 32 word \<Rightarrow> 32 word \<Rightarrow> 32 word \<Rightarrow> TimeProfiler2D
     \<Rightarrow> (StageTimeProfiler2D \<times> TimeProfiler2D) option" where
  "StageTimeProfiler2D_new now s x y z p =
     (case count now s x y z p of
        None \<Rightarrow> None
      | Some p' \<Rightarrow>
          Some (\<lparr>m_prevStage = m_stage p, m_prevX = sint (m_curX p), m_prevY = sint (m_curY p),
                 m_prevZ = sint (m_curZ p)\<rparr>, p'))"

definition StageTimeProfiler2D_delete ::
  "time_point \<Rightarrow> StageTimeProfiler2D \<Rightarrow> TimeProfiler2D \<Rightarrow> TimeProfiler2D option" where
  "StageTimeProfiler2D_delete now g p =
     count now (m_prevStage g) (word_of_int (m_prevX g)) (word_of_int (m_prevY g))
       (word_of_int (m_prevZ g)) p"

text \<open>A sequence of transitions, each with the clock value it reads.\<close>

fun transitions :: "(time_point \<times> STAGE) list \<Rightarrow> TimeProfiler \<Rightarrow> TimeProfiler option" where
  "transitions [] p = Some p"
| "transitions ((t, s) # cs) p =
     (case transition t s p of None \<Rightarrow> None | Some p' \<Rightarrow> transitions cs p')"


section \<open>Basic facts\<close>

lemma stage_index_less: "stage_index s < 12"
  by (cases s) simp_all

lemma stage_index_inj: "stage_index s = stage_index s' \<longleftrightarrow> s = s'"
  by (cases s; cases s') simp_all

lemma m_numStages_eq: "m_numStages = 12"
  by (simp add: m_numStages_def)

lemma well_sized_new: "well_sized (TimeProfiler_new now)"
  by (simp add: well_sized_def TimeProfiler_new_def init_def)

lemma to_ms_add: "to_ms a + to_ms b = to_ms (a + b)"
  by (simp add: to_ms_def add_divide_distrib)

lemma transition_well_sized:
  assumes "well_sized p"
  shows "transition now s p =
           Some (p\<lparr>durations := (durations p)[stage_index (m_eStage p) :=
                       duration_of p (m_eStage p) + to_ms (now - m_previous p)],
                    m_previous := now, m_eStage := s\<rparr>)"
  using assms stage_index_less [of "m_eStage p"]
  by (simp add: transition_def add_at_def well_sized_def m_numStages_eq duration_of_def)

lemma transition_keeps_well_sized:
  "well_sized p \<Longrightarrow> transition now s p = Some p' \<Longrightarrow> well_sized p'"
  by (auto simp: transition_well_sized well_sized_def)

lemma in_range: "well_sized p \<Longrightarrow> stage_index s < length (durations p)"
  using stage_index_less [of s] by (simp add: well_sized_def m_numStages_eq)

lemma transition_duration_of:
  assumes "well_sized p" and "transition now s p = Some p'"
  shows "duration_of p' s' =
           duration_of p s' + (if s' = m_eStage p then to_ms (now - m_previous p) else 0)"
  using assms in_range [OF assms(1), of "m_eStage p"]
  by (auto simp: transition_well_sized duration_of_def nth_list_update stage_index_inj)

lemma transition_fields:
  assumes "well_sized p" and "transition now s p = Some p'"
  shows "m_eStage p' = s" and "m_previous p' = now" and "start_time p' = start_time p"
    and "well_sized p'"
  using assms by (auto simp: transition_well_sized well_sized_def)

lemma transition_total: "well_sized p \<Longrightarrow> \<exists>p'. transition now s p = Some p'"
  by (simp add: transition_well_sized)

section \<open>Facts about double arithmetic\<close>








lemma double_add_commute: "double_add a b = double_add b a"
  by (simp add: double_add_def add.commute)

text \<open>The values of the intervals 0.1, 0.2, 0.3 and 0.6 ms and of their sums.\<close>

lemma to_ms_double_100000: "to_ms_double 100000 = 3602879701896397 / 36028797018963968"
  by (simp add: to_ms_double_def round_double_def round_even_def bit_length.simps Let_def)

lemma to_ms_double_200000: "to_ms_double 200000 = 3602879701896397 / 18014398509481984"
  by (simp add: to_ms_double_def round_double_def round_even_def bit_length.simps Let_def)

lemma to_ms_double_300000: "to_ms_double 300000 = 5404319552844595 / 18014398509481984"
  by (simp add: to_ms_double_def round_double_def round_even_def bit_length.simps Let_def)


lemma double_add_0: "double_add 0 0 = 0"
  by (simp add: double_add_def round_double_def)

lemma double_add_0_left:
  "double_add 0 (3602879701896397 / 36028797018963968) = 3602879701896397 / 36028797018963968"
  "double_add 0 (3602879701896397 / 18014398509481984) = 3602879701896397 / 18014398509481984"
  "double_add 0 (5404319552844595 / 18014398509481984) = 5404319552844595 / 18014398509481984"
  by (simp_all add: double_add_def round_double_def round_even_def bit_length.simps Let_def)

lemma double_add_01_02:
  "double_add (3602879701896397 / 36028797018963968) (3602879701896397 / 18014398509481984) =
     1351079888211149 / 4503599627370496"
  by (simp add: double_add_def round_double_def round_even_def bit_length.simps Let_def)

lemma double_add_03_03:
  "double_add (1351079888211149 / 4503599627370496) (5404319552844595 / 18014398509481984) =
     5404319552844596 / 9007199254740992"
  by (simp add: double_add_def round_double_def round_even_def bit_length.simps Let_def)

lemma double_add_02_03:
  "double_add (3602879701896397 / 18014398509481984) (5404319552844595 / 18014398509481984) =
     1 / 2"
  by (simp add: double_add_def round_double_def round_even_def bit_length.simps Let_def)

lemma double_add_01_05:
  "double_add (3602879701896397 / 36028797018963968) (1 / 2) =
     5404319552844595 / 9007199254740992"
  by (simp add: double_add_def round_double_def round_even_def bit_length.simps Let_def)


lemma transition_double_well_sized:
  assumes "well_sized p"
  shows "transition_double now s p =
           Some (p\<lparr>durations := (durations p)[stage_index (m_eStage p) :=
                       double_add (duration_of p (m_eStage p)) (to_ms_double (now - m_previous p))],
                    m_previous := now, m_eStage := s\<rparr>)"
  using assms stage_index_less [of "m_eStage p"]
  by (simp add: transition_double_def add_at_double_def well_sized_def m_numStages_eq
      duration_of_def)

section \<open>Retroactive attribution\<close>

text \<open>
  Claim C1. A transition into stage \<open>s\<close> at clock value \<open>now\<close> adds the time since the last
  transition, \<open>now - m_previous\<close>, to the slot of the stage that was active before the call,
  leaves every other slot as it was, makes \<open>s\<close> the active stage and \<open>now\<close> the time of the
  last transition. In particular \<open>start(P_INTRAPRED)\<close> at 0 ms, a transition into
  \<open>P_MOTCOMP\<close> at 10 ms and one into \<open>P_VOID\<close> at 15 ms (clock values in nanoseconds)
  give 10 ms for \<open>P_INTRAPRED\<close>, 5 ms for \<open>P_MOTCOMP\<close> and a tracked total of 15 ms.
\<close>

theorem C1_transition_retroactive:
  "(well_sized p \<longrightarrow>
     (\<exists>p'. transition now s p = Some p' \<and>
        duration_of p' (m_eStage p) = duration_of p (m_eStage p) + to_ms (now - m_previous p) \<and>
        (\<forall>s'. s' \<noteq> m_eStage p \<longrightarrow> duration_of p' s' = duration_of p s') \<and>
        m_eStage p' = s \<and> m_previous p' = now \<and> start_time p' = start_time p \<and>
        well_sized p')) \<and>
   (\<exists>q. (transition 10000000 P_MOTCOMP (start 0 P_INTRAPRED (TimeProfiler_new tc))
           \<bind> transition 15000000 P_VOID) = Some q \<and>
        duration_of q P_INTRAPRED = 10 \<and> duration_of q P_MOTCOMP = 5 \<and>
        (\<forall>s'. s' \<noteq> P_INTRAPRED \<and> s' \<noteq> P_MOTCOMP \<longrightarrow> duration_of q s' = 0) \<and>
        trackedTotal q = 15)"
proof (intro conjI impI)
  assume w: "well_sized p"
  show "\<exists>p'. transition now s p = Some p' \<and>
        duration_of p' (m_eStage p) = duration_of p (m_eStage p) + to_ms (now - m_previous p) \<and>
        (\<forall>s'. s' \<noteq> m_eStage p \<longrightarrow> duration_of p' s' = duration_of p s') \<and>
        m_eStage p' = s \<and> m_previous p' = now \<and> start_time p' = start_time p \<and>
        well_sized p'"
    using w in_range [OF w, of "m_eStage p"]
    by (simp add: transition_well_sized duration_of_def well_sized_def stage_index_inj)
next
  have q: "(transition 10000000 P_MOTCOMP (start 0 P_INTRAPRED (TimeProfiler_new tc))
           \<bind> transition 15000000 P_VOID) =
        Some \<lparr>m_previous = 15000000, m_eStage = P_VOID, start_time = tc,
              durations = [0, 0, 0, 10, 5, 0, 0, 0, 0, 0, 0, 0]\<rparr>"
    by (simp add: transition_def start_def TimeProfiler_new_def init_def add_at_def
        m_numStages_eq to_ms_def eval_nat_numeral)
  have z: "s' \<noteq> P_INTRAPRED \<and> s' \<noteq> P_MOTCOMP \<longrightarrow>
        [0, 0, 0, 10, 5, 0, 0, 0, 0, 0, 0, 0::real] ! stage_index s' = 0" for s'
    by (cases s') simp_all
  show "\<exists>q. (transition 10000000 P_MOTCOMP (start 0 P_INTRAPRED (TimeProfiler_new tc))
           \<bind> transition 15000000 P_VOID) = Some q \<and>
        duration_of q P_INTRAPRED = 10 \<and> duration_of q P_MOTCOMP = 5 \<and>
        (\<forall>s'. s' \<noteq> P_INTRAPRED \<and> s' \<noteq> P_MOTCOMP \<longrightarrow> duration_of q s' = 0) \<and>
        trackedTotal q = 15"
    unfolding q using z
    by (simp add: duration_of_def trackedTotal_def tracked_stages_def all_stages_def)
qed

theorem C1_transition_retroactive_witness:
  "well_sized (start 0 P_ALF (TimeProfiler_new 0)) \<and>
   (\<exists>p'. transition 3000000 P_SAO (start 0 P_ALF (TimeProfiler_new 0)) = Some p' \<and>
      duration_of p' P_ALF = 3 \<and> m_eStage p' = P_SAO \<and> m_previous p' = 3000000)"
proof -
  let ?p = "start 0 P_ALF (TimeProfiler_new 0)"
  have w: "well_sized ?p"
    by (simp add: well_sized_def start_def TimeProfiler_new_def init_def)
  have i: "m_eStage ?p = P_ALF" "m_previous ?p = 0" "duration_of ?p P_ALF = 0"
    by (simp_all add: start_def TimeProfiler_new_def init_def duration_of_def m_numStages_eq)
  from C1_transition_retroactive [of ?p 3000000 P_SAO] w
  obtain p' where "transition 3000000 P_SAO ?p = Some p'"
    and "duration_of p' (m_eStage ?p) = duration_of ?p (m_eStage ?p) + to_ms (3000000 - m_previous ?p)"
    and "m_eStage p' = P_SAO" and "m_previous p' = 3000000"
    by blast
  then show ?thesis
    using w by (intro conjI exI [of _ p']) (simp_all add: i to_ms_def)
qed

section \<open>Nesting of scope guards\<close>

text \<open>
  Claim C3. An outer guard for stage \<open>Y\<close> is constructed at \<open>t0\<close>, an inner guard for stage
  \<open>X\<close> at \<open>t1\<close>; the inner guard is destroyed at \<open>t2\<close> and the outer one at \<open>t3\<close>. The four
  calls succeed, the profiler is back in the stage it was in, and every slot has grown by
  what the bracket charges to it: \<open>t2 - t1\<close> to \<open>X\<close>, \<open>(t1 - t0) + (t3 - t2)\<close> to \<open>Y\<close>, and
  the time before \<open>t0\<close> to the stage that was active then. So for two different stages
  \<open>X\<close> and \<open>Y\<close>, neither of them active before, the bracket adds \<open>t2 - t1\<close> to \<open>X\<close> and
  \<open>(t1 - t0) + (t3 - t2)\<close> to \<open>Y\<close>. The constructor captures the current stage and makes
  the transition, the destructor makes the transition back to the captured stage.
\<close>

theorem C3_guard_nesting:
  assumes "well_sized p"
  shows "\<exists>p4.
           (StageTimeProfiler_new t0 Y p \<bind> (\<lambda>(outer, p1).
              StageTimeProfiler_new t1 X p1 \<bind> (\<lambda>(inner, p2).
                StageTimeProfiler_delete t2 inner p2 \<bind>
                  StageTimeProfiler_delete t3 outer))) = Some p4 \<and>
           curStage p4 = curStage p \<and> m_previous p4 = t3 \<and>
           (\<forall>s. duration_of p4 s = duration_of p s
                  + (if s = curStage p then to_ms (t0 - m_previous p) else 0)
                  + (if s = Y then to_ms (t1 - t0) + to_ms (t3 - t2) else 0)
                  + (if s = X then to_ms (t2 - t1) else 0)) \<and>
           (X \<noteq> Y \<and> curStage p \<noteq> X \<and> curStage p \<noteq> Y \<longrightarrow>
              duration_of p4 X = duration_of p X + to_ms (t2 - t1) \<and>
              duration_of p4 Y = duration_of p Y + (to_ms (t1 - t0) + to_ms (t3 - t2))) \<and>
           StageTimeProfiler_new t0 Y p =
             map_option (Pair \<lparr>m_ePrevStage = curStage p\<rparr>) (transition t0 Y p) \<and>
           (\<forall>g q. StageTimeProfiler_delete t3 g q = transition t3 (m_ePrevStage g) q)"
proof -
  obtain p1 where 1: "transition t0 Y p = Some p1"
    using transition_total [OF assms] by blast
  note f1 = transition_fields [OF assms 1]
  obtain p2 where 2: "transition t1 X p1 = Some p2"
    using transition_total [OF f1(4)] by blast
  note f2 = transition_fields [OF f1(4) 2]
  obtain p3 where 3: "transition t2 Y p2 = Some p3"
    using transition_total [OF f2(4)] by blast
  note f3 = transition_fields [OF f2(4) 3]
  obtain p4 where 4: "transition t3 (curStage p) p3 = Some p4"
    using transition_total [OF f3(4)] by blast
  note f4 = transition_fields [OF f3(4) 4]
  have d: "duration_of p4 s = duration_of p s
                  + (if s = curStage p then to_ms (t0 - m_previous p) else 0)
                  + (if s = Y then to_ms (t1 - t0) + to_ms (t3 - t2) else 0)
                  + (if s = X then to_ms (t2 - t1) else 0)" for s
    by (simp add: transition_duration_of [OF f3(4) 4] transition_duration_of [OF f2(4) 3]
        transition_duration_of [OF f1(4) 2] transition_duration_of [OF assms 1]
        f1 f2 f3 curStage_def)
  have run: "(StageTimeProfiler_new t0 Y p \<bind> (\<lambda>(outer, p1).
              StageTimeProfiler_new t1 X p1 \<bind> (\<lambda>(inner, p2).
                StageTimeProfiler_delete t2 inner p2 \<bind>
                  StageTimeProfiler_delete t3 outer))) = Some p4"
    by (simp add: StageTimeProfiler_new_def StageTimeProfiler_delete_def 1 2 3 4
        curStage_def [of p1] f1)
  have cap: "StageTimeProfiler_new t0 Y p =
             map_option (Pair \<lparr>m_ePrevStage = curStage p\<rparr>) (transition t0 Y p)"
    by (simp add: StageTimeProfiler_new_def split: option.splits)
  have del: "\<forall>g q. StageTimeProfiler_delete t3 g q = transition t3 (m_ePrevStage g) q"
    by (simp add: StageTimeProfiler_delete_def)
  have fin: "curStage p4 = curStage p" "m_previous p4 = t3"
    by (simp_all add: curStage_def f4)
  have cl: "X \<noteq> Y \<and> curStage p \<noteq> X \<and> curStage p \<noteq> Y \<longrightarrow>
              duration_of p4 X = duration_of p X + to_ms (t2 - t1) \<and>
              duration_of p4 Y = duration_of p Y + (to_ms (t1 - t0) + to_ms (t3 - t2))"
    by (auto simp: d)
  show ?thesis
    using run fin d cl cap del by (intro exI [of _ p4]) blast
qed

theorem C3_guard_nesting_witness:
  "well_sized (TimeProfiler_new 0) \<and>
   (\<exists>p4. (StageTimeProfiler_new 1000000 P_MOTCOMP (TimeProfiler_new 0) \<bind> (\<lambda>(outer, p1).
              StageTimeProfiler_new 3000000 P_INTRAPRED p1 \<bind> (\<lambda>(inner, p2).
                StageTimeProfiler_delete 7000000 inner p2 \<bind>
                  StageTimeProfiler_delete 15000000 outer))) = Some p4 \<and>
      duration_of p4 P_INTRAPRED = 4 \<and> duration_of p4 P_MOTCOMP = 2 + 8 \<and>
      curStage p4 = P_VOID)"
proof -
  let ?p = "TimeProfiler_new 0"
  have w: "well_sized ?p"
    by (rule well_sized_new)
  from C3_guard_nesting [OF w, of 1000000 P_MOTCOMP 3000000 P_INTRAPRED 7000000 15000000]
  obtain p4 where run:
      "(StageTimeProfiler_new 1000000 P_MOTCOMP ?p \<bind> (\<lambda>(outer, p1).
              StageTimeProfiler_new 3000000 P_INTRAPRED p1 \<bind> (\<lambda>(inner, p2).
                StageTimeProfiler_delete 7000000 inner p2 \<bind>
                  StageTimeProfiler_delete 15000000 outer))) = Some p4"
    and cur: "curStage p4 = curStage ?p"
    and d: "\<forall>s. duration_of p4 s = duration_of ?p s
                  + (if s = curStage ?p then to_ms (1000000 - m_previous ?p) else 0)
                  + (if s = P_MOTCOMP then to_ms (3000000 - 1000000) + to_ms (15000000 - 7000000) else 0)
                  + (if s = P_INTRAPRED then to_ms (7000000 - 3000000) else 0)"
    by blast
  have init: "curStage ?p = P_VOID" "duration_of ?p s = 0" for s
    using stage_index_less [of s]
    by (simp_all add: curStage_def TimeProfiler_new_def init_def duration_of_def m_numStages_eq)
  have "duration_of p4 P_INTRAPRED = 4" "duration_of p4 P_MOTCOMP = 2 + 8"
    using d by (simp_all add: init to_ms_def)
  with w run cur init(1) show ?thesis
    by (intro conjI exI [of _ p4]) simp_all
qed

section \<open>Merging\<close>

lemma merge_loop_length: "length (merge_loop as bs) = length as"
  by (induction as bs rule: merge_loop.induct) simp_all

lemma merge_loop_nth:
  "i < length as \<Longrightarrow> i < length bs \<Longrightarrow> merge_loop as bs ! i = double_add (as ! i) (bs ! i)"
proof (induction as bs arbitrary: i rule: merge_loop.induct)
  case (1 a as b bs)
  then show ?case by (cases i) simp_all
qed simp_all

lemma merge_loop_commute:
  "length as = length bs \<Longrightarrow> merge_loop as bs = merge_loop bs as"
  by (rule nth_equalityI) (simp_all add: merge_loop_length merge_loop_nth double_add_commute)

text \<open>
  Claim C4, as stated, fails: merging is not associative. Three profilers have spent 0.1,
  0.2 and 0.3 ms in \<open>P_INTRAPRED\<close>. Merging the second into the first and then the third
  into the result leaves 5404319552844596 / 2^53 ms (0.6000000000000001) in that slot;
  merging the third into the second and the result into the first leaves
  5404319552844595 / 2^53 ms (0.6).
\<close>

theorem C4_merge_counterexample:
  "transition_double 100000 P_VOID (start 0 P_INTRAPRED (TimeProfiler_new 0)) =
     Some \<lparr>m_previous = 100000, m_eStage = P_VOID, start_time = 0,
           durations = [0, 0, 0, 3602879701896397 / 36028797018963968, 0, 0, 0, 0, 0, 0, 0, 0]\<rparr> \<and>
   transition_double 200000 P_VOID (start 0 P_INTRAPRED (TimeProfiler_new 0)) =
     Some \<lparr>m_previous = 200000, m_eStage = P_VOID, start_time = 0,
           durations = [0, 0, 0, 3602879701896397 / 18014398509481984, 0, 0, 0, 0, 0, 0, 0, 0]\<rparr> \<and>
   transition_double 300000 P_VOID (start 0 P_INTRAPRED (TimeProfiler_new 0)) =
     Some \<lparr>m_previous = 300000, m_eStage = P_VOID, start_time = 0,
           durations = [0, 0, 0, 5404319552844595 / 18014398509481984, 0, 0, 0, 0, 0, 0, 0, 0]\<rparr> \<and>
   durations
     (merge
       (merge
         \<lparr>m_previous = 100000, m_eStage = P_VOID, start_time = 0,
           durations = [0, 0, 0, 3602879701896397 / 36028797018963968, 0, 0, 0, 0, 0, 0, 0, 0]\<rparr>
         \<lparr>m_previous = 200000, m_eStage = P_VOID, start_time = 0,
           durations = [0, 0, 0, 3602879701896397 / 18014398509481984, 0, 0, 0, 0, 0, 0, 0, 0]\<rparr>)
       \<lparr>m_previous = 300000, m_eStage = P_VOID, start_time = 0,
         durations = [0, 0, 0, 5404319552844595 / 18014398509481984, 0, 0, 0, 0, 0, 0, 0, 0]\<rparr>) =
     [0, 0, 0, 5404319552844596 / 9007199254740992, 0, 0, 0, 0, 0, 0, 0, 0] \<and>
   durations
     (merge
       \<lparr>m_previous = 100000, m_eStage = P_VOID, start_time = 0,
         durations = [0, 0, 0, 3602879701896397 / 36028797018963968, 0, 0, 0, 0, 0, 0, 0, 0]\<rparr>
       (merge
         \<lparr>m_previous = 200000, m_eStage = P_VOID, start_time = 0,
           durations = [0, 0, 0, 3602879701896397 / 18014398509481984, 0, 0, 0, 0, 0, 0, 0, 0]\<rparr>
         \<lparr>m_previous = 300000, m_eStage = P_VOID, start_time = 0,
           durations = [0, 0, 0, 5404319552844595 / 18014398509481984, 0, 0, 0, 0, 0, 0, 0, 0]\<rparr>)) =
     [0, 0, 0, 5404319552844595 / 9007199254740992, 0, 0, 0, 0, 0, 0, 0, 0]"
proof -
  have w: "well_sized (start 0 P_INTRAPRED (TimeProfiler_new 0))"
    by (simp add: well_sized_def start_def TimeProfiler_new_def init_def)
  have i: "start 0 P_INTRAPRED (TimeProfiler_new 0) =
      \<lparr>m_previous = 0, m_eStage = P_INTRAPRED, start_time = 0,
        durations = [0, 0, 0, 0, 0, 0, 0, 0, 0, 0, 0, 0]\<rparr>"
    by (simp add: start_def TimeProfiler_new_def init_def m_numStages_eq eval_nat_numeral)
  show ?thesis
    unfolding transition_double_well_sized [OF w]
    unfolding i
    by (simp add: duration_of_def merge_def
        to_ms_double_100000 to_ms_double_200000 to_ms_double_300000 double_add_0_left
        double_add_0 double_add_01_02 double_add_03_03 double_add_02_03 double_add_01_05)
qed

text \<open>
  Claim C4, amended. For profilers \<open>A\<close> and \<open>B\<close> (each with its twelve slots), merging \<open>B\<close>
  into \<open>A\<close> gives every stage the \<open>double\<close> sum of its durations in \<open>A\<close> and in \<open>B\<close> and
  leaves the active stage and the time of the last transition of \<open>A\<close>; the merged
  durations do not depend on the order of the two profilers.
\<close>

theorem C4_merge_elementwise:
  assumes "well_sized A" and "well_sized B"
  shows "(\<forall>s. duration_of (merge A B) s = double_add (duration_of A s) (duration_of B s)) \<and>
         well_sized (merge A B) \<and>
         m_eStage (merge A B) = m_eStage A \<and> m_previous (merge A B) = m_previous A \<and>
         durations (merge A B) = durations (merge B A)"
proof -
  have len: "length (durations A) = 12" "length (durations B) = 12"
    using assms by (simp_all add: well_sized_def m_numStages_eq)
  have "duration_of (merge A B) s = double_add (duration_of A s) (duration_of B s)" for s
    using stage_index_less [of s] by (simp add: duration_of_def merge_def merge_loop_nth len)
  moreover have "well_sized (merge A B)"
    by (simp add: well_sized_def merge_def merge_loop_length len m_numStages_eq)
  moreover have "durations (merge A B) = durations (merge B A)"
    by (simp add: merge_def merge_loop_commute len)
  ultimately show ?thesis
    by (simp add: merge_def)
qed

theorem C4_merge_elementwise_witness:
  "well_sized (TimeProfiler_new 0\<lparr>durations := [1, 2, 3, 4, 5, 6, 7, 8, 9, 10, 11, 12]\<rparr>) \<and>
   well_sized (TimeProfiler_new 5\<lparr>durations := [10, 20, 30, 40, 50, 60, 70, 80, 90, 100, 110, 120]\<rparr>) \<and>
   duration_of (merge (TimeProfiler_new 0\<lparr>durations := [1, 2, 3, 4, 5, 6, 7, 8, 9, 10, 11, 12]\<rparr>)
      (TimeProfiler_new 5\<lparr>durations := [10, 20, 30, 40, 50, 60, 70, 80, 90, 100, 110, 120]\<rparr>))
      P_MOTCOMP = 55"
proof -
  let ?A = "TimeProfiler_new 0\<lparr>durations := [1, 2, 3, 4, 5, 6, 7, 8, 9, 10, 11, 12]\<rparr>"
  let ?B = "TimeProfiler_new 5\<lparr>durations := [10, 20, 30, 40, 50, 60, 70, 80, 90, 100, 110, 120]\<rparr>"
  have w: "well_sized ?A" "well_sized ?B"
    by (simp_all add: well_sized_def m_numStages_eq TimeProfiler_new_def init_def)
  have e: "double_add 5 50 = 55"
    by (simp add: double_add_def round_double_def round_even_def bit_length.simps Let_def)
  from C4_merge_elementwise [OF w]
  have "duration_of (merge ?A ?B) P_MOTCOMP =
          double_add (duration_of ?A P_MOTCOMP) (duration_of ?B P_MOTCOMP)"
    by blast
  then show ?thesis
    using w by (simp add: duration_of_def e)
qed

section \<open>Attribution in the spatial profiler\<close>

lemma count_eq:
  assumes "in_grid p"
  shows "count now s x y z p =
     Some (p\<lparr>m_counters := (m_counters p)[unat (m_curZ p) :=
                  (m_counters p ! unat (m_curZ p))\<lparr>cnt_cell := (\<lambda>t' y' x'.
                     if t' = stage_index (m_stage p) \<and> y' = unat (m_curY p) \<and> x' = unat (m_curX p)
                     then cnt_cell (m_counters p ! unat (m_curZ p)) (stage_index (m_stage p))
                            (unat (m_curY p)) (unat (m_curX p)) + real_of_int (now - m_previous2D p)
                     else cnt_cell (m_counters p ! unat (m_curZ p)) t' y' x')\<rparr>],
             m_previous2D := now, m_stage := s, m_curX := x, m_curY := y, m_curZ := z\<rparr>)"
  using assms by (simp add: in_grid_def count_def cnt_add_def del: of_int_diff)

lemma count_cell:
  assumes "in_grid p" and "count now s x y z p = Some p'"
  shows "cell p' s' x' y' z' = cell p s' x' y' z' +
           (if (s', x', y', z') = (m_stage p, m_curX p, m_curY p, m_curZ p)
            then real_of_int (now - m_previous2D p) else 0)"
proof -
  have z: "unat (m_curZ p) < length (m_counters p)"
    using assms(1) by (simp add: in_grid_def)
  have p': "p' = p\<lparr>m_counters := (m_counters p)[unat (m_curZ p) :=
                  (m_counters p ! unat (m_curZ p))\<lparr>cnt_cell := (\<lambda>t' y' x'.
                     if t' = stage_index (m_stage p) \<and> y' = unat (m_curY p) \<and> x' = unat (m_curX p)
                     then cnt_cell (m_counters p ! unat (m_curZ p)) (stage_index (m_stage p))
                            (unat (m_curY p)) (unat (m_curX p)) + real_of_int (now - m_previous2D p)
                     else cnt_cell (m_counters p ! unat (m_curZ p)) t' y' x')\<rparr>],
             m_previous2D := now, m_stage := s, m_curX := x, m_curY := y, m_curZ := z\<rparr>"
    using assms(2) by (simp add: count_eq [OF assms(1)])
  show ?thesis
  proof (cases "z' = m_curZ p")
    case True
    then show ?thesis
      using z by (simp add: p' cell_def stage_index_inj word_unat_eq_iff [symmetric] del: of_int_diff)
  next
    case False
    then have "unat z' \<noteq> unat (m_curZ p)"
      by (simp add: word_unat_eq_iff)
    then show ?thesis
      using False by (simp add: p' cell_def nth_list_update del: of_int_diff)
  qed
qed

lemma count_fields:
  assumes "in_grid p" and "count now s x y z p = Some p'"
  shows "m_stage p' = s" "m_curX p' = x" "m_curY p' = y" "m_curZ p' = z"
    "m_previous2D p' = now" "m_startTime p' = m_startTime p"
    "length (m_counters p') = length (m_counters p)"
    "map cnt_types (m_counters p') = map cnt_types (m_counters p)"
    "map cnt_xdim (m_counters p') = map cnt_xdim (m_counters p)"
    "map cnt_ydim (m_counters p') = map cnt_ydim (m_counters p)"
proof -
  have z: "unat (m_curZ p) < length (m_counters p)"
    using assms(1) by (simp add: in_grid_def)
  note e = assms(2) [unfolded count_eq [OF assms(1)], simplified, symmetric]
  show "m_stage p' = s" "m_curX p' = x" "m_curY p' = y" "m_curZ p' = z"
    "m_previous2D p' = now" "m_startTime p' = m_startTime p"
    "length (m_counters p') = length (m_counters p)"
    by (simp_all add: e)
  show "map cnt_types (m_counters p') = map cnt_types (m_counters p)"
    "map cnt_xdim (m_counters p') = map cnt_xdim (m_counters p)"
    "map cnt_ydim (m_counters p') = map cnt_ydim (m_counters p)"
    using z by (simp_all add: e map_update list_update_same_conv)
qed


lemma count_total: "in_grid p \<Longrightarrow> \<exists>p'. count now s x y z p = Some p'"
  by (simp add: count_eq)

lemma count_in_grid:
  assumes "in_grid p" and "count now s x y z p = Some p'"
    and "unat z < length (m_counters p)"
    and "stage_index s < cnt_types (m_counters p ! unat z)"
    and "unat y < cnt_ydim (m_counters p ! unat z)"
    and "unat x < cnt_xdim (m_counters p ! unat z)"
  shows "in_grid p'"
proof -
  note f = count_fields [OF assms(1,2)]
  have l: "unat z < length (m_counters p')"
    using assms(3) by (simp add: f(7))
  have "map cnt_types (m_counters p') ! unat z = map cnt_types (m_counters p) ! unat z"
    "map cnt_ydim (m_counters p') ! unat z = map cnt_ydim (m_counters p) ! unat z"
    "map cnt_xdim (m_counters p') ! unat z = map cnt_xdim (m_counters p) ! unat z"
    by (simp_all only: f(8,9,10))
  then have "cnt_types (m_counters p' ! unat z) = cnt_types (m_counters p ! unat z)"
    "cnt_ydim (m_counters p' ! unat z) = cnt_ydim (m_counters p ! unat z)"
    "cnt_xdim (m_counters p' ! unat z) = cnt_xdim (m_counters p ! unat z)"
    using l assms(3) by simp_all
  then show ?thesis
    using assms(3-6) by (simp add: in_grid_def f)
qed

text \<open>
  The spatial guard: the coordinates survive the passage through \<open>int\<close>, so its destructor
  charges the time since its construction to the key it installed and restores the key it found.
\<close>

lemma guard2D_restores:
  assumes "in_grid p" and "StageTimeProfiler2D_new t s x y z p = Some (g, p')" and "in_grid p'"
  shows "\<exists>p''. StageTimeProfiler2D_delete t' g p' = Some p'' \<and>
           m_stage p'' = m_stage p \<and> m_curX p'' = m_curX p \<and> m_curY p'' = m_curY p \<and>
           m_curZ p'' = m_curZ p \<and>
           cell p'' s x y z = cell p' s x y z + real_of_int (t' - t)"
proof -
  from assms(2) have 1: "count t s x y z p = Some p'"
    and g: "g = \<lparr>m_prevStage = m_stage p, m_prevX = sint (m_curX p), m_prevY = sint (m_curY p),
                 m_prevZ = sint (m_curZ p)\<rparr>"
    by (auto simp: StageTimeProfiler2D_new_def split: option.splits)
  note f = count_fields [OF assms(1) 1]
  obtain p'' where 2: "count t' (m_stage p) (m_curX p) (m_curY p) (m_curZ p) p' = Some p''"
    using count_total [OF assms(3)] by blast
  show ?thesis
    by (rule exI [of _ p''])
      (simp add: StageTimeProfiler2D_delete_def g 2 count_fields [OF assms(3) 2]
        count_cell [OF assms(3) 2] f del: of_int_diff)
qed

text \<open>
  Claim C5. When the current key \<open>(m_stage, m_curX, m_curY, m_curZ)\<close> addresses a cell of the
  grids, \<open>count(s, x, y, z)\<close> at clock value \<open>now\<close> adds \<open>now - m_previous\<close> (in clock ticks)
  to the cell of the current key, changes no other cell, and makes \<open>(s, x, y, z)\<close> the
  current key and \<open>now\<close> the time of the last call. In particular, on a profiler of extents
  4, 5 and 1, \<open>count(stageA, 1, 2, 0)\<close> at 0 ms followed by \<open>count(stageB, 3, 4, 0)\<close> at 5 ms
  puts the 5 ms (5000000 ticks) into the cell \<open>(stageA, 1, 2, 0)\<close> and nothing into the
  cell of the new key.
\<close>

theorem C5_count_retroactive:
  "(in_grid p \<longrightarrow>
     (\<exists>p'. count now s x y z p = Some p' \<and>
           cell p' (m_stage p) (m_curX p) (m_curY p) (m_curZ p) =
             cell p (m_stage p) (m_curX p) (m_curY p) (m_curZ p)
               + real_of_int (now - m_previous2D p) \<and>
           (\<forall>s' x' y' z'. (s', x', y', z') \<noteq> (m_stage p, m_curX p, m_curY p, m_curZ p) \<longrightarrow>
              cell p' s' x' y' z' = cell p s' x' y' z') \<and>
           m_stage p' = s \<and> m_curX p' = x \<and> m_curY p' = y \<and> m_curZ p' = z \<and>
           m_previous2D p' = now)) \<and>
   (\<exists>q. (count 0 stageA 1 2 0 (TimeProfiler2D_new tc 4 5 1) \<bind> count 5000000 stageB 3 4 0)
           = Some q \<and>
        cell q stageA 1 2 0 = 5000000 \<and> cell q stageB 3 4 0 = 0 \<and>
        m_stage q = stageB \<and> m_curX q = 3 \<and> m_curY q = 4 \<and> m_curZ q = 0)"
proof (intro conjI impI)
  assume g: "in_grid p"
  obtain p' where 1: "count now s x y z p = Some p'"
    using count_total [OF g] by blast
  show "\<exists>p'. count now s x y z p = Some p' \<and>
           cell p' (m_stage p) (m_curX p) (m_curY p) (m_curZ p) =
             cell p (m_stage p) (m_curX p) (m_curY p) (m_curZ p)
               + real_of_int (now - m_previous2D p) \<and>
           (\<forall>s' x' y' z'. (s', x', y', z') \<noteq> (m_stage p, m_curX p, m_curY p, m_curZ p) \<longrightarrow>
              cell p' s' x' y' z' = cell p s' x' y' z') \<and>
           m_stage p' = s \<and> m_curX p' = x \<and> m_curY p' = y \<and> m_curZ p' = z \<and>
           m_previous2D p' = now"
    by (rule exI [of _ p'])
      (simp add: 1 count_cell [OF g 1] count_fields [OF g 1] del: of_int_diff)
next
  let ?p = "TimeProfiler2D_new tc 4 5 1"
  have g0: "in_grid ?p"
    by (simp add: in_grid_def TimeProfiler2D_new_def StatCounter2DSet_init_def stageNames_def)
  have z: "cell ?p s' x' y' z' = 0" for s' x' y' z'
    by (simp add: cell_def TimeProfiler2D_new_def StatCounter2DSet_init_def)
  have k0: "m_curX ?p = 0" "m_curY ?p = 0" "m_curZ ?p = 0" "m_stage ?p = P_VOID"
    by (simp_all add: TimeProfiler2D_new_def)
  obtain p1 where 1: "count 0 stageA 1 2 0 ?p = Some p1"
    using count_total [OF g0] by blast
  note k1 = count_fields [OF g0 1]
  have g1: "in_grid p1"
    using stage_index_less [of stageA]
    by (intro count_in_grid [OF g0 1])
      (simp_all add: TimeProfiler2D_new_def StatCounter2DSet_init_def stageNames_def)
  have a: "cell p1 stageA 1 2 0 = 0" "cell p1 stageB 3 4 0 = 0"
    by (simp_all add: count_cell [OF g0 1] z k0)
  obtain q where 2: "count 5000000 stageB 3 4 0 p1 = Some q"
    using count_total [OF g1] by blast
  note k2 = count_fields [OF g1 2]
  have "cell q stageA 1 2 0 = 5000000" "cell q stageB 3 4 0 = 0"
    by (simp_all add: count_cell [OF g1 2] a k1)
  then
  show "\<exists>q. (count 0 stageA 1 2 0 ?p \<bind> count 5000000 stageB 3 4 0)
           = Some q \<and>
        cell q stageA 1 2 0 = 5000000 \<and> cell q stageB 3 4 0 = 0 \<and>
        m_stage q = stageB \<and> m_curX q = 3 \<and> m_curY q = 4 \<and> m_curZ q = 0"
    by (intro exI [of _ q]) (simp add: 1 2 k2)
qed

theorem C5_count_retroactive_witness:
  "in_grid (TimeProfiler2D_new 0 2 2 1) \<and>
   (\<exists>p'. count 7 P_SAO 1 1 0 (TimeProfiler2D_new 0 2 2 1) = Some p' \<and>
      cell p' P_VOID 0 0 0 = 7 \<and> cell p' P_SAO 1 1 0 = 0 \<and> m_stage p' = P_SAO \<and>
      m_curX p' = 1 \<and> m_previous2D p' = 7)"
proof -
  let ?p = "TimeProfiler2D_new 0 2 2 1"
  have g: "in_grid ?p"
    by (simp add: in_grid_def TimeProfiler2D_new_def StatCounter2DSet_init_def stageNames_def)
  have z: "cell ?p s' x' y' z' = 0" for s' x' y' z'
    by (simp add: cell_def TimeProfiler2D_new_def StatCounter2DSet_init_def)
  have k: "m_curX ?p = 0" "m_curY ?p = 0" "m_curZ ?p = 0" "m_stage ?p = P_VOID"
    "m_previous2D ?p = 0"
    by (simp_all add: TimeProfiler2D_new_def)
  from C5_count_retroactive [of ?p 7 P_SAO 1 1 0] g
  obtain p' where "count 7 P_SAO 1 1 0 ?p = Some p'"
    and "cell p' (m_stage ?p) (m_curX ?p) (m_curY ?p) (m_curZ ?p) =
             cell ?p (m_stage ?p) (m_curX ?p) (m_curY ?p) (m_curZ ?p)
               + real_of_int (7 - m_previous2D ?p)"
    and "\<forall>s' x' y' z'. (s', x', y', z') \<noteq> (m_stage ?p, m_curX ?p, m_curY ?p, m_curZ ?p) \<longrightarrow>
              cell p' s' x' y' z' = cell ?p s' x' y' z'"
    and "m_stage p' = P_SAO" "m_curX p' = 1" "m_previous2D p' = 7"
    by blast
  then show ?thesis
    using g by (intro conjI exI [of _ p']) (simp_all add: k z)
qed

section \<open>Stopping\<close>

lemma stop_is_transition_without_timestamp:
  "stop now s p =
     map_option (\<lambda>q. q\<lparr>m_previous := m_previous p\<rparr>) (transition now (curStage p) p)"
  by (simp add: stop_def transition_def curStage_def split: option.splits)

text \<open>
  Claim C6 says that \<open>stop()\<close> leaves the profiler in the state of a transition into the
  active stage, the time of the last transition included. The scalar \<open>stop\<close> adds the open
  interval to the active stage and keeps \<open>m_previous\<close>: after \<open>start(P_INTRAPRED)\<close> at 0 and
  \<open>stop\<close> at 10 ms the time of the last transition is still 0, where the transition sets it
  to 10 ms, and a transition at 15 ms then charges 15 ms more, 25 ms in all for 15 ms of
  run time. \<open>TimeProfiler2D::stop\<close> is a call of \<open>count\<close> with the current key and does
  set the time.
\<close>

theorem C6_stop_keeps_timestamp:
  "stop 10000000 P_INTRAPRED (start 0 P_INTRAPRED (TimeProfiler_new 0)) =
     Some \<lparr>m_previous = 0, m_eStage = P_INTRAPRED, start_time = 0,
           durations = [0, 0, 0, 10, 0, 0, 0, 0, 0, 0, 0, 0]\<rparr> \<and>
   transition 10000000 (curStage (start 0 P_INTRAPRED (TimeProfiler_new 0)))
       (start 0 P_INTRAPRED (TimeProfiler_new 0)) =
     Some \<lparr>m_previous = 10000000, m_eStage = P_INTRAPRED, start_time = 0,
           durations = [0, 0, 0, 10, 0, 0, 0, 0, 0, 0, 0, 0]\<rparr> \<and>
   (stop 10000000 P_INTRAPRED (start 0 P_INTRAPRED (TimeProfiler_new 0))
      \<bind> transition 15000000 P_VOID) =
     Some \<lparr>m_previous = 15000000, m_eStage = P_VOID, start_time = 0,
           durations = [0, 0, 0, 25, 0, 0, 0, 0, 0, 0, 0, 0]\<rparr> \<and>
   (stop2D 10000000 P_INTRAPRED (start2D 0 P_INTRAPRED (TimeProfiler2D_new 0 1 1 1)) =
      count 10000000 P_INTRAPRED 0 0 0 (start2D 0 P_INTRAPRED (TimeProfiler2D_new 0 1 1 1))) \<and>
   map_option m_previous2D
     (stop2D 10000000 P_INTRAPRED (start2D 0 P_INTRAPRED (TimeProfiler2D_new 0 1 1 1))) =
     Some 10000000"
  by (simp add: stop_def transition_def start_def TimeProfiler_new_def init_def add_at_def
      m_numStages_eq to_ms_def curStage_def eval_nat_numeral
      stop2D_def count_def start2D_def TimeProfiler2D_new_def cnt_add_def
      StatCounter2DSet_init_def stageNames_def)

text \<open>
  Claim C10. The stage passed to \<open>stop\<close> is not used: two calls that differ in it only give
  the same result, in the scalar and in the spatial profiler, and the interval goes to the
  stage (the cell of the key) that is active, which stays active.
\<close>

theorem C10_stop_ignores_stage:
  "stop now s1 p = stop now s2 p \<and>
   stop2D now s1 q = stop2D now s2 q \<and>
   (well_sized p \<longrightarrow>
      (\<exists>p'. stop now s1 p = Some p' \<and>
         duration_of p' (m_eStage p) = duration_of p (m_eStage p) + to_ms (now - m_previous p) \<and>
         (\<forall>s'. s' \<noteq> m_eStage p \<longrightarrow> duration_of p' s' = duration_of p s') \<and>
         m_eStage p' = m_eStage p)) \<and>
   (in_grid q \<longrightarrow>
      (\<exists>q'. stop2D now s1 q = Some q' \<and>
         cell q' (m_stage q) (m_curX q) (m_curY q) (m_curZ q) =
           cell q (m_stage q) (m_curX q) (m_curY q) (m_curZ q)
             + real_of_int (now - m_previous2D q) \<and>
         (\<forall>s' x' y' z'. (s', x', y', z') \<noteq> (m_stage q, m_curX q, m_curY q, m_curZ q) \<longrightarrow>
            cell q' s' x' y' z' = cell q s' x' y' z') \<and>
         m_stage q' = m_stage q \<and> m_curX q' = m_curX q \<and> m_curY q' = m_curY q \<and>
         m_curZ q' = m_curZ q))"
proof (intro conjI impI)
  show "stop now s1 p = stop now s2 p"
    by (simp add: stop_def)
  show "stop2D now s1 q = stop2D now s2 q"
    by (simp add: stop2D_def)
next
  assume w: "well_sized p"
  show "\<exists>p'. stop now s1 p = Some p' \<and>
         duration_of p' (m_eStage p) = duration_of p (m_eStage p) + to_ms (now - m_previous p) \<and>
         (\<forall>s'. s' \<noteq> m_eStage p \<longrightarrow> duration_of p' s' = duration_of p s') \<and>
         m_eStage p' = m_eStage p"
    using in_range [OF w, of "m_eStage p"]
    by (simp add: stop_def add_at_def duration_of_def stage_index_inj)
next
  assume g: "in_grid q"
  obtain q' where 1: "count now (m_stage q) (m_curX q) (m_curY q) (m_curZ q) q = Some q'"
    using count_total [OF g] by blast
  show "\<exists>q'. stop2D now s1 q = Some q' \<and>
         cell q' (m_stage q) (m_curX q) (m_curY q) (m_curZ q) =
           cell q (m_stage q) (m_curX q) (m_curY q) (m_curZ q)
             + real_of_int (now - m_previous2D q) \<and>
         (\<forall>s' x' y' z'. (s', x', y', z') \<noteq> (m_stage q, m_curX q, m_curY q, m_curZ q) \<longrightarrow>
            cell q' s' x' y' z' = cell q s' x' y' z') \<and>
         m_stage q' = m_stage q \<and> m_curX q' = m_curX q \<and> m_curY q' = m_curY q \<and>
         m_curZ q' = m_curZ q"
    by (rule exI [of _ q'])
      (simp add: stop2D_def 1 count_cell [OF g 1] count_fields [OF g 1] del: of_int_diff)
qed

theorem C10_stop_ignores_stage_witness:
  "well_sized (TimeProfiler_new 0) \<and> in_grid (TimeProfiler2D_new 0 1 1 1) \<and>
   stop 4000000 P_SAO (TimeProfiler_new 0) = stop 4000000 P_ALF (TimeProfiler_new 0) \<and>
   (\<exists>p'. stop 4000000 P_SAO (TimeProfiler_new 0) = Some p' \<and> duration_of p' P_VOID = 4 \<and>
      m_eStage p' = P_VOID) \<and>
   (\<exists>q'. stop2D 4000000 P_SAO (TimeProfiler2D_new 0 1 1 1) = Some q' \<and>
      cell q' P_VOID 0 0 0 = 4000000 \<and> m_stage q' = P_VOID)"
proof -
  let ?p = "TimeProfiler_new 0" and ?q = "TimeProfiler2D_new 0 1 1 1"
  have w: "well_sized ?p"
    by (rule well_sized_new)
  have g: "in_grid ?q"
    by (simp add: in_grid_def TimeProfiler2D_new_def StatCounter2DSet_init_def stageNames_def)
  have i: "m_eStage ?p = P_VOID" "m_previous ?p = 0" "duration_of ?p P_VOID = 0"
    by (simp_all add: TimeProfiler_new_def init_def duration_of_def m_numStages_eq)
  have k: "m_curX ?q = 0" "m_curY ?q = 0" "m_curZ ?q = 0" "m_stage ?q = P_VOID"
    "m_previous2D ?q = 0" "cell ?q P_VOID 0 0 0 = 0"
    by (simp_all add: TimeProfiler2D_new_def cell_def StatCounter2DSet_init_def)
  note c = C10_stop_ignores_stage [of 4000000 P_SAO ?p P_ALF ?q]
  from c have e: "stop 4000000 P_SAO ?p = stop 4000000 P_ALF ?p"
    by blast
  from c w obtain p' where p': "stop 4000000 P_SAO ?p = Some p'"
    "duration_of p' (m_eStage ?p) = duration_of ?p (m_eStage ?p) + to_ms (4000000 - m_previous ?p)"
    "m_eStage p' = m_eStage ?p"
    by blast
  from c g obtain q' where q': "stop2D 4000000 P_SAO ?q = Some q'"
    "cell q' (m_stage ?q) (m_curX ?q) (m_curY ?q) (m_curZ ?q) =
       cell ?q (m_stage ?q) (m_curX ?q) (m_curY ?q) (m_curZ ?q)
         + real_of_int (4000000 - m_previous2D ?q)"
    "m_stage q' = m_stage ?q"
    by blast
  have "\<exists>p'. stop 4000000 P_SAO ?p = Some p' \<and> duration_of p' P_VOID = 4 \<and> m_eStage p' = P_VOID"
    using p' by (intro exI [of _ p']) (simp add: i to_ms_def)
  moreover
  have "\<exists>q'. stop2D 4000000 P_SAO ?q = Some q' \<and> cell q' P_VOID 0 0 0 = 4000000 \<and>
      m_stage q' = P_VOID"
    using q' by (intro exI [of _ q']) (simp add: k)
  ultimately show ?thesis
    using w g e by blast
qed

section \<open>Facts about the report\<close>

lemma foldl_plus: "foldl (+) a xs = a + sum_list xs" for a :: real
  by (induction xs arbitrary: a) simp_all

lemma counted_eq: "ds \<noteq> [] \<Longrightarrow> counted ds = Some (sum_list (butlast ds))"
  by (simp add: counted_def foldl_plus)

lemma tracked_indices: "map stage_index tracked_stages = [0 ..< 11]"
  by (simp add: tracked_stages_def all_stages_def upt_rec [of _ 11] upt_rec [of _ "Suc _"])

lemma tracked_stages_eq:
  "tracked_stages =
     [P_NALU_SLICE_PIC_HL, P_CONTROL_PARSE_DERIVE_LL, P_PARSERESIDUALS, P_INTRAPRED,
      P_MOTCOMP, P_ITRANS_REC, P_DBFILTER, P_SAO, P_RESHAPER, P_ALF, P_OTHER]"
  by (simp add: tracked_stages_def all_stages_def)

lemma butlast_nth: "butlast ds = map (nth ds) [0 ..< length ds - 1]"
  by (rule nth_equalityI) (simp_all add: nth_butlast)

lemma trackedTotal_eq:
  assumes "well_sized p"
  shows "trackedTotal p = sum_list (butlast (durations p))"
proof -
  have "map (duration_of p) tracked_stages = map (nth (durations p)) (map stage_index tracked_stages)"
    by (simp add: duration_of_def comp_def)
  also have "\<dots> = butlast (durations p)"
    using assms by (simp add: tracked_indices butlast_nth [of "durations p"] well_sized_def m_numStages_eq)
  finally show ?thesis
    by (simp add: trackedTotal_def)
qed

lemma report_rows_eq:
  "\<forall>i \<in> set is. i < length ds \<and> i < length stageNames \<Longrightarrow>
   report_rows ds c is =
     Some (map (\<lambda>i. \<lparr>row_name = stageNames ! i, row_time = ds ! i,
                      row_percent = percentage (ds ! i) c\<rparr>)
             (filter (\<lambda>i. ds ! i \<noteq> 0) is))"
  by (induction "is") (simp_all add: scale_def percentage_def Let_def)

lemma print_profiler_eq:
  assumes "well_sized p"
  shows "print_profiler p =
     Some \<lparr>header = [''stages'', ''time(ms)'', ''%''],
           stage_rows = map (spec_row p) (filter (\<lambda>s. duration_of p s \<noteq> 0) tracked_stages),
           total_row = \<lparr>row_name = ''TOTAL'', row_time = trackedTotal p,
                        row_percent = Finite 100\<rparr>\<rparr>"
proof -
  have len: "length (durations p) = 12"
    using assms by (simp add: well_sized_def m_numStages_eq)
  then have ne: "durations p \<noteq> []"
    by auto
  have rows: "report_rows (durations p) (trackedTotal p) [0 ..< 11] =
     Some (map (\<lambda>i. \<lparr>row_name = stageNames ! i, row_time = durations p ! i,
                      row_percent = percentage (durations p ! i) (trackedTotal p)\<rparr>)
             (filter (\<lambda>i. durations p ! i \<noteq> 0) [0 ..< 11]))"
    by (rule report_rows_eq) (simp add: len stageNames_def)
  have "map (spec_row p) (filter (\<lambda>s. duration_of p s \<noteq> 0) tracked_stages) =
        map (\<lambda>i. \<lparr>row_name = stageNames ! i, row_time = durations p ! i,
                      row_percent = percentage (durations p ! i) (trackedTotal p)\<rparr>)
             (filter (\<lambda>i. durations p ! i \<noteq> 0) (map stage_index tracked_stages))"
    by (simp add: filter_map comp_def spec_row_def duration_of_def)
  then show ?thesis
    by (simp add: print_profiler_def counted_eq [OF ne] trackedTotal_eq [OF assms, symmetric]
        rows tracked_indices scale_def)
qed


lemma percentage_finite: "c \<noteq> 0 \<Longrightarrow> percentage d c = Finite (d / c * 100)"
  by (simp add: percentage_def dbl_div_def)

lemma sum_list_nonneg_zero:
  fixes xs :: "real list"
  shows "\<forall>x \<in> set xs. 0 \<le> x \<Longrightarrow> sum_list xs = 0 \<Longrightarrow> \<forall>x \<in> set xs. x = 0"
  by (simp add: sum_list_nonneg_eq_0_iff)

lemma set_void_slot:
  assumes "well_sized p"
  shows "well_sized (p\<lparr>durations := (durations p)[stage_index P_VOID := v]\<rparr>)"
    and "s \<noteq> P_VOID \<Longrightarrow>
         duration_of (p\<lparr>durations := (durations p)[stage_index P_VOID := v]\<rparr>) s = duration_of p s"
    and "trackedTotal (p\<lparr>durations := (durations p)[stage_index P_VOID := v]\<rparr>) = trackedTotal p"
proof -
  show "well_sized (p\<lparr>durations := (durations p)[stage_index P_VOID := v]\<rparr>)"
    using assms by (simp add: well_sized_def)
  show d: "s \<noteq> P_VOID \<Longrightarrow>
         duration_of (p\<lparr>durations := (durations p)[stage_index P_VOID := v]\<rparr>) s = duration_of p s"
    for s
    by (cases s) (simp_all add: duration_of_def)
  show "trackedTotal (p\<lparr>durations := (durations p)[stage_index P_VOID := v]\<rparr>) = trackedTotal p"
    using d by (simp add: trackedTotal_def tracked_stages_eq)
qed

text \<open>
  Claim C7. For a profiler with its twelve slots the report is computed: its rows are, in
  the order of the registry, the stages other than the sentinel "none" whose duration is
  not zero, each with its name, its duration and its share of the tracked total times one
  hundred; the last row is \<open>TOTAL\<close> with the tracked total and 100. The tracked total is the
  sum of the durations of all stages except "none", and where it is not zero the share is
  the finite number \<open>duration / trackedTotal * 100\<close>.
\<close>

theorem C7_report_contract:
  assumes "well_sized p"
  shows "print_profiler p =
     Some \<lparr>header = [''stages'', ''time(ms)'', ''%''],
           stage_rows =
             map (\<lambda>s. \<lparr>row_name = stageNames ! stage_index s, row_time = duration_of p s,
                         row_percent = percentage (duration_of p s) (trackedTotal p)\<rparr>)
               (filter (\<lambda>s. duration_of p s \<noteq> 0) tracked_stages),
           total_row = \<lparr>row_name = ''TOTAL'', row_time = trackedTotal p,
                        row_percent = Finite 100\<rparr>\<rparr> \<and>
     output_profiler p = print_profiler p \<and>
     tracked_stages =
       [P_NALU_SLICE_PIC_HL, P_CONTROL_PARSE_DERIVE_LL, P_PARSERESIDUALS, P_INTRAPRED,
        P_MOTCOMP, P_ITRANS_REC, P_DBFILTER, P_SAO, P_RESHAPER, P_ALF, P_OTHER] \<and>
     trackedTotal p = sum_list (map (duration_of p) tracked_stages) \<and>
     (\<forall>d. trackedTotal p \<noteq> 0 \<longrightarrow>
        percentage d (trackedTotal p) = Finite (d / trackedTotal p * 100))"
proof -
  have "spec_row p = (\<lambda>s. \<lparr>row_name = stageNames ! stage_index s, row_time = duration_of p s,
                         row_percent = percentage (duration_of p s) (trackedTotal p)\<rparr>)"
    by (rule ext) (simp add: spec_row_def)
  with print_profiler_eq [OF assms] show ?thesis
    by (simp add: output_profiler_def tracked_stages_eq [symmetric] trackedTotal_def
        percentage_finite)
qed

theorem C7_report_contract_witness:
  "well_sized \<lparr>m_previous = 15000000, m_eStage = P_VOID, start_time = 0,
               durations = [0, 0, 0, 10, 5, 0, 0, 0, 0, 0, 0, 7]\<rparr> \<and>
   print_profiler \<lparr>m_previous = 15000000, m_eStage = P_VOID, start_time = 0,
               durations = [0, 0, 0, 10, 5, 0, 0, 0, 0, 0, 0, 7]\<rparr> =
     Some \<lparr>header = [''stages'', ''time(ms)'', ''%''],
           stage_rows =
             [\<lparr>row_name = ''P_INTRAPRED'', row_time = 10, row_percent = Finite (200 / 3)\<rparr>,
              \<lparr>row_name = ''P_MOTCOMP'', row_time = 5, row_percent = Finite (100 / 3)\<rparr>],
           total_row = \<lparr>row_name = ''TOTAL'', row_time = 15, row_percent = Finite 100\<rparr>\<rparr>"
proof -
  let ?p = "\<lparr>m_previous = 15000000, m_eStage = P_VOID, start_time = 0,
               durations = [0, 0, 0, 10, 5, 0, 0, 0, 0, 0, 0, 7]\<rparr>"
  have w: "well_sized ?p"
    by (simp add: well_sized_def m_numStages_eq)
  have t: "trackedTotal ?p = 15"
    by (simp add: trackedTotal_def tracked_stages_def all_stages_def duration_of_def)
  from C7_report_contract [OF w] have "print_profiler ?p =
     Some \<lparr>header = [''stages'', ''time(ms)'', ''%''],
           stage_rows =
             map (\<lambda>s. \<lparr>row_name = stageNames ! stage_index s, row_time = duration_of ?p s,
                         row_percent = percentage (duration_of ?p s) (trackedTotal ?p)\<rparr>)
               (filter (\<lambda>s. duration_of ?p s \<noteq> 0) tracked_stages),
           total_row = \<lparr>row_name = ''TOTAL'', row_time = trackedTotal ?p,
                        row_percent = Finite 100\<rparr>\<rparr>"
    by blast
  then show ?thesis
    using w
    by (simp add: t tracked_stages_def all_stages_def duration_of_def stageNames_def
        percentage_def dbl_div_def)
qed

text \<open>
  Claim C8, as stated, fails. A profiler just constructed has the tracked total zero and its
  report shows a percentage that is not zero, the 100 of the \<open>TOTAL\<close> row; and there is no
  guard: with the durations 1 ms and -1 ms in two stages the tracked total is zero, both
  divisions by zero are made and the percentages are the two infinities.
\<close>

theorem C8_zero_total_counterexample:
  "trackedTotal (TimeProfiler_new 0) = 0 \<and>
   print_profiler (TimeProfiler_new 0) =
     Some \<lparr>header = [''stages'', ''time(ms)'', ''%''], stage_rows = [],
           total_row = \<lparr>row_name = ''TOTAL'', row_time = 0, row_percent = Finite 100\<rparr>\<rparr> \<and>
   trackedTotal (TimeProfiler_new 0\<lparr>durations := [1, - 1, 0, 0, 0, 0, 0, 0, 0, 0, 0, 0]\<rparr>) = 0 \<and>
   print_profiler (TimeProfiler_new 0\<lparr>durations := [1, - 1, 0, 0, 0, 0, 0, 0, 0, 0, 0, 0]\<rparr>) =
     Some \<lparr>header = [''stages'', ''time(ms)'', ''%''],
           stage_rows =
             [\<lparr>row_name = ''P_NALU_SLICE_PIC_HL'', row_time = 1, row_percent = PlusInf\<rparr>,
              \<lparr>row_name = ''P_CONTROL_PARSE_DERIVE_LL'', row_time = - 1,
                row_percent = MinusInf\<rparr>],
           total_row = \<lparr>row_name = ''TOTAL'', row_time = 0, row_percent = Finite 100\<rparr>\<rparr>"
  by (simp add: trackedTotal_def tracked_stages_def all_stages_def duration_of_def
      TimeProfiler_new_def init_def m_numStages_eq print_profiler_def counted_def
      stageNames_def scale_def dbl_div_def upt_rec [of _ 11] upt_rec [of _ "Suc _"]
      eval_nat_numeral)

text \<open>
  Claim C8, amended. If the tracked total is zero and no duration is negative, the report
  has no stage row, so that no division is made and no percentage of a stage is shown, and
  its \<open>TOTAL\<close> row shows the duration zero and the constant 100.
\<close>

theorem C8_zero_total_no_rows:
  assumes "well_sized p"
    and "\<forall>s. 0 \<le> duration_of p s"
    and "trackedTotal p = 0"
  shows "print_profiler p =
     Some \<lparr>header = [''stages'', ''time(ms)'', ''%''], stage_rows = [],
           total_row = \<lparr>row_name = ''TOTAL'', row_time = 0, row_percent = Finite 100\<rparr>\<rparr>"
proof -
  have "\<forall>x \<in> set (map (duration_of p) tracked_stages). x = 0"
    using assms(2,3) by (intro sum_list_nonneg_zero) (auto simp: trackedTotal_def)
  then have "filter (\<lambda>s. duration_of p s \<noteq> 0) tracked_stages = []"
    by (simp add: filter_empty_conv)
  then show ?thesis
    by (simp add: print_profiler_eq [OF assms(1)] assms(3))
qed

theorem C8_zero_total_no_rows_witness:
  "well_sized (TimeProfiler_new 3 \<lparr>durations := [0, 0, 0, 0, 0, 0, 0, 0, 0, 0, 0, 8]\<rparr>) \<and>
   (\<forall>s. 0 \<le> duration_of (TimeProfiler_new 3 \<lparr>durations := [0, 0, 0, 0, 0, 0, 0, 0, 0, 0, 0, 8]\<rparr>) s) \<and>
   trackedTotal (TimeProfiler_new 3 \<lparr>durations := [0, 0, 0, 0, 0, 0, 0, 0, 0, 0, 0, 8]\<rparr>) = 0 \<and>
   print_profiler (TimeProfiler_new 3 \<lparr>durations := [0, 0, 0, 0, 0, 0, 0, 0, 0, 0, 0, 8]\<rparr>) =
     Some \<lparr>header = [''stages'', ''time(ms)'', ''%''], stage_rows = [],
           total_row = \<lparr>row_name = ''TOTAL'', row_time = 0, row_percent = Finite 100\<rparr>\<rparr>"
proof -
  let ?p = "TimeProfiler_new 3 \<lparr>durations := [0, 0, 0, 0, 0, 0, 0, 0, 0, 0, 0, 8]\<rparr>"
  have w: "well_sized ?p"
    by (simp add: well_sized_def m_numStages_eq)
  have n: "\<forall>s. 0 \<le> duration_of ?p s"
  proof
    fix s show "0 \<le> duration_of ?p s"
      by (cases s) (simp_all add: duration_of_def)
  qed
  have t: "trackedTotal ?p = 0"
    by (simp add: trackedTotal_def tracked_stages_def all_stages_def duration_of_def)
  from C8_zero_total_no_rows [OF w n t] w n t show ?thesis
    by blast
qed


text \<open>
  Claim C9, as stated, fails: after 5 ms in the stage \<open>P_OTHER\<close> alone the tracked total is
  5 ms and \<open>P_OTHER\<close> has a row, at 100 percent of it.
\<close>

theorem C9_other_counterexample:
  "(transition 5000000 P_VOID (start 0 P_OTHER (TimeProfiler_new 0)) \<bind> print_profiler) =
     Some \<lparr>header = [''stages'', ''time(ms)'', ''%''],
           stage_rows = [\<lparr>row_name = ''P_OTHER'', row_time = 5, row_percent = Finite 100\<rparr>],
           total_row = \<lparr>row_name = ''TOTAL'', row_time = 5, row_percent = Finite 100\<rparr>\<rparr>"
  by (simp add: transition_def start_def add_at_def to_ms_def
      TimeProfiler_new_def init_def m_numStages_eq print_profiler_def counted_def
      stageNames_def scale_def dbl_div_def upt_rec [of _ 11] upt_rec [of _ "Suc _"]
      eval_nat_numeral)

text \<open>
  Claim C9, amended. Only the sentinel "none" is kept out of the total against which the
  percentages are computed: the total of the report is the sum of the durations of the ten
  stages before \<open>P_OTHER\<close> plus the duration of \<open>P_OTHER\<close>, a duration of \<open>P_OTHER\<close> that is
  not zero has its row, and the value in the slot of \<open>P_VOID\<close> does not change the report.
\<close>

theorem C9_other_is_tracked:
  assumes "well_sized p"
  shows "\<exists>r. print_profiler p = Some r \<and>
           row_time (total_row r) =
             sum_list (map (duration_of p)
               [P_NALU_SLICE_PIC_HL, P_CONTROL_PARSE_DERIVE_LL, P_PARSERESIDUALS, P_INTRAPRED,
                P_MOTCOMP, P_ITRANS_REC, P_DBFILTER, P_SAO, P_RESHAPER, P_ALF])
             + duration_of p P_OTHER \<and>
           (duration_of p P_OTHER \<noteq> 0 \<longrightarrow>
              \<lparr>row_name = ''P_OTHER'', row_time = duration_of p P_OTHER,
               row_percent = percentage (duration_of p P_OTHER) (row_time (total_row r))\<rparr>
                \<in> set (stage_rows r)) \<and>
           (\<forall>v. print_profiler (p\<lparr>durations := (durations p)[stage_index P_VOID := v]\<rparr>) = Some r)"
proof -
  let ?r = "\<lparr>header = [''stages'', ''time(ms)'', ''%''],
           stage_rows = map (spec_row p) (filter (\<lambda>s. duration_of p s \<noteq> 0) tracked_stages),
           total_row = \<lparr>row_name = ''TOTAL'', row_time = trackedTotal p,
                        row_percent = Finite 100\<rparr>\<rparr>"
  have 1: "print_profiler p = Some ?r"
    by (rule print_profiler_eq [OF assms])
  have 2: "row_time (total_row ?r) =
             sum_list (map (duration_of p)
               [P_NALU_SLICE_PIC_HL, P_CONTROL_PARSE_DERIVE_LL, P_PARSERESIDUALS, P_INTRAPRED,
                P_MOTCOMP, P_ITRANS_REC, P_DBFILTER, P_SAO, P_RESHAPER, P_ALF])
             + duration_of p P_OTHER"
    by (simp add: trackedTotal_def tracked_stages_eq)
  have 3: "duration_of p P_OTHER \<noteq> 0 \<longrightarrow>
              \<lparr>row_name = ''P_OTHER'', row_time = duration_of p P_OTHER,
               row_percent = percentage (duration_of p P_OTHER) (row_time (total_row ?r))\<rparr>
                \<in> set (stage_rows ?r)"
  proof
    assume "duration_of p P_OTHER \<noteq> 0"
    then have "P_OTHER \<in> set (filter (\<lambda>s. duration_of p s \<noteq> 0) tracked_stages)"
      by (simp add: tracked_stages_eq)
    then have "spec_row p P_OTHER \<in> set (stage_rows ?r)"
      by simp
    then show "\<lparr>row_name = ''P_OTHER'', row_time = duration_of p P_OTHER,
               row_percent = percentage (duration_of p P_OTHER) (row_time (total_row ?r))\<rparr>
                \<in> set (stage_rows ?r)"
      by (simp add: spec_row_def stageNames_def)
  qed
  have 4: "print_profiler (p\<lparr>durations := (durations p)[stage_index P_VOID := v]\<rparr>) = Some ?r"
    for v
  proof -
    define q where "q = p\<lparr>durations := (durations p)[stage_index P_VOID := v]\<rparr>"
    have q: "well_sized q" "\<And>s. s \<noteq> P_VOID \<Longrightarrow> duration_of q s = duration_of p s"
      "trackedTotal q = trackedTotal p"
      unfolding q_def
      by (rule set_void_slot(1) [OF assms], erule set_void_slot(2) [OF assms],
          rule set_void_slot(3) [OF assms])
    have n: "\<forall>s \<in> set tracked_stages. s \<noteq> P_VOID"
      by (simp add: tracked_stages_def)
    have f: "filter (\<lambda>s. duration_of q s \<noteq> 0) tracked_stages =
          filter (\<lambda>s. duration_of p s \<noteq> 0) tracked_stages"
      using n by (intro filter_cong refl) (simp add: q(2))
    have "map (spec_row q) (filter (\<lambda>s. duration_of p s \<noteq> 0) tracked_stages) =
          map (spec_row p) (filter (\<lambda>s. duration_of p s \<noteq> 0) tracked_stages)"
      using n by (intro map_cong refl) (simp add: spec_row_def q(2) q(3))
    then have "print_profiler q = Some ?r"
      by (simp add: print_profiler_eq [OF q(1)] f q(3))
    then show ?thesis
      unfolding q_def .
  qed
  from 1 2 3 4 show ?thesis
    by (intro exI [of _ ?r]) blast
qed

theorem C9_other_is_tracked_witness:
  "well_sized (TimeProfiler_new 0 \<lparr>durations := [1, 0, 0, 0, 0, 0, 0, 0, 0, 0, 3, 9]\<rparr>) \<and>
   (\<exists>r. print_profiler (TimeProfiler_new 0 \<lparr>durations := [1, 0, 0, 0, 0, 0, 0, 0, 0, 0, 3, 9]\<rparr>)
           = Some r \<and>
      row_time (total_row r) = 4 \<and>
      \<lparr>row_name = ''P_OTHER'', row_time = 3, row_percent = Finite 75\<rparr> \<in> set (stage_rows r))"
proof -
  let ?p = "TimeProfiler_new 0 \<lparr>durations := [1, 0, 0, 0, 0, 0, 0, 0, 0, 0, 3, 9]\<rparr>"
  have w: "well_sized ?p"
    by (simp add: well_sized_def m_numStages_eq)
  have d: "duration_of ?p P_OTHER = 3"
    "sum_list (map (duration_of ?p)
               [P_NALU_SLICE_PIC_HL, P_CONTROL_PARSE_DERIVE_LL, P_PARSERESIDUALS, P_INTRAPRED,
                P_MOTCOMP, P_ITRANS_REC, P_DBFILTER, P_SAO, P_RESHAPER, P_ALF]) = 1"
    by (simp_all add: duration_of_def)
  from C9_other_is_tracked [OF w] obtain r where r: "print_profiler ?p = Some r"
    "row_time (total_row r) =
             sum_list (map (duration_of ?p)
               [P_NALU_SLICE_PIC_HL, P_CONTROL_PARSE_DERIVE_LL, P_PARSERESIDUALS, P_INTRAPRED,
                P_MOTCOMP, P_ITRANS_REC, P_DBFILTER, P_SAO, P_RESHAPER, P_ALF])
             + duration_of ?p P_OTHER"
    "duration_of ?p P_OTHER \<noteq> 0 \<longrightarrow>
              \<lparr>row_name = ''P_OTHER'', row_time = duration_of ?p P_OTHER,
               row_percent = percentage (duration_of ?p P_OTHER) (row_time (total_row r))\<rparr>
                \<in> set (stage_rows r)"
    by blast
  have t: "row_time (total_row r) = 4"
    using r(2) unfolding d by simp
  have "\<lparr>row_name = ''P_OTHER'', row_time = 3, row_percent = Finite 75\<rparr> \<in> set (stage_rows r)"
    using r(3) unfolding d t by (simp add: percentage_def dbl_div_def)
  with w r(1) t show ?thesis
    by (intro conjI exI [of _ r]) simp_all
qed

section \<open>Conservation\<close>

lemma trackedTotal_transition:
  assumes "well_sized p" and "transition t s p = Some p'"
  shows "trackedTotal p' =
           trackedTotal p + (if m_eStage p = P_VOID then 0 else to_ms (t - m_previous p))"
  by (cases "m_eStage p")
    (simp_all add: trackedTotal_def tracked_stages_eq transition_duration_of [OF assms])

lemma transitions_tracked:
  assumes "well_sized p" and "m_eStage p \<noteq> P_VOID" and "cs \<noteq> []"
    and "\<forall>(t, s) \<in> set (butlast cs). s \<noteq> P_VOID"
  shows "\<exists>p'. transitions cs p = Some p' \<and>
           trackedTotal p' = trackedTotal p + to_ms (fst (last cs) - m_previous p)"
  using assms
proof (induction cs arbitrary: p)
  case Nil
  then show ?case by simp
next
  case (Cons c cs)
  obtain t s where c: "c = (t, s)"
    by (cases c)
  obtain p1 where 1: "transition t s p = Some p1"
    using transition_total [OF Cons.prems(1)] by blast
  note f = transition_fields [OF Cons.prems(1) 1]
  have tr: "trackedTotal p1 = trackedTotal p + to_ms (t - m_previous p)"
    using Cons.prems(2) by (simp add: trackedTotal_transition [OF Cons.prems(1) 1])
  show ?case
  proof (cases "cs = []")
    case True
    then show ?thesis
      by (simp add: c 1 tr)
  next
    case False
    then have "s \<noteq> P_VOID" and "\<forall>(t, s) \<in> set (butlast cs). s \<noteq> P_VOID"
      using Cons.prems(4) by (simp_all add: c)
    with Cons.IH [of p1] f False
    obtain p' where "transitions cs p1 = Some p'"
      and "trackedTotal p' = trackedTotal p1 + to_ms (fst (last cs) - m_previous p1)"
      by blast
    then show ?thesis
      using False by (simp add: c 1 tr f to_ms_add)
  qed
qed













text \<open>
  With the rounding left out, the sum is the time from the first call to the last one
  whatever the clock values are.
\<close>

lemma conservation_without_rounding:
  assumes "cs \<noteq> []" and "\<forall>(t, s) \<in> set (butlast cs). s \<noteq> P_VOID"
  shows "\<exists>p'. transitions cs (TimeProfiler_new tc) = Some p' \<and>
            trackedTotal p' = to_ms (fst (last cs) - fst (hd cs))"
proof -
  let ?p = "TimeProfiler_new tc"
  obtain t s cs' where cs: "cs = (t, s) # cs'"
    using assms(1) by (cases cs) auto
  have w: "well_sized ?p"
    by (rule well_sized_new)
  obtain p1 where 1: "transition t s ?p = Some p1"
    using transition_total [OF w] by blast
  note f = transition_fields [OF w 1]
  have "trackedTotal ?p = 0"
    by (simp add: trackedTotal_def tracked_stages_eq duration_of_def TimeProfiler_new_def
        init_def m_numStages_eq)
  then have tr: "trackedTotal p1 = 0"
    by (simp add: trackedTotal_transition [OF w 1] TimeProfiler_new_def init_def)
  show ?thesis
  proof (cases "cs' = []")
    case True
    then show ?thesis
      by (simp add: cs 1 tr to_ms_def)
  next
    case False
    then have "s \<noteq> P_VOID" and "\<forall>(t, s) \<in> set (butlast cs'). s \<noteq> P_VOID"
      using assms(2) by (simp_all add: cs)
    with transitions_tracked [of p1 cs'] f False
    obtain p' where "transitions cs' p1 = Some p'"
      and "trackedTotal p' = trackedTotal p1 + to_ms (fst (last cs') - m_previous p1)"
      by blast
    then show ?thesis
      using False by (simp add: cs 1 tr f)
  qed
qed

end
